theory Spec2Isabelle
  imports Complex_Main
begin

section \<open>Python values used by the examples\<close>

text \<open>
  Strings are lists of code points below 256.  An exception is a class together with the text that
  \<open>str(e)\<close> gives.  Every class below derives from Python's \<open>Exception\<close>, so each of
  them is caught by an \<open>except Exception\<close> clause; \<open>RequestError\<close> stands for
  \<open>httpx.RequestError\<close> and its subclasses.
\<close>

datatype exc_class =
    ValueError | TypeError | AttributeError | RequestError | TimeoutError
  | JSONDecodeError | RuntimeError | PlainException

datatype exn = Exn exc_class string

fun str_exn :: "exn \<Rightarrow> string" where
  "str_exn (Exn c m) = m"

fun exn_class :: "exn \<Rightarrow> exc_class" where
  "exn_class (Exn c m) = c"

text \<open>JSON documents as \<open>response.json()\<close> returns them; a dict is an association list.\<close>

datatype json =
    JNull | JBool bool | JInt int | JFloat real | JStr string
  | JList "json list" | JDict "(string \<times> json) list"

type_synonym pydict = "(string \<times> json) list"

fun type_name :: "json \<Rightarrow> string" where
  "type_name JNull = ''NoneType''"
| "type_name (JBool b) = ''bool''"
| "type_name (JInt i) = ''int''"
| "type_name (JFloat r) = ''float''"
| "type_name (JStr s) = ''str''"
| "type_name (JList xs) = ''list''"
| "type_name (JDict d) = ''dict''"

definition dict_get :: "pydict \<Rightarrow> string \<Rightarrow> json \<Rightarrow> json" where
  "dict_get d k dflt = (case map_of d k of Some v \<Rightarrow> v | None \<Rightarrow> dflt)"

text \<open>\<open>obj.get(key, dflt)\<close>: only a dict has the method.\<close>

fun py_get :: "json \<Rightarrow> string \<Rightarrow> json \<Rightarrow> exn + json" where
  "py_get (JDict d) k dflt = Inr (dict_get d k dflt)"
| "py_get v k dflt =
     Inl (Exn AttributeError
       ([CHR 0x27] @ type_name v @ [CHR 0x27] @ '' object has no attribute '' @
        [CHR 0x27] @ ''get'' @ [CHR 0x27]))"

text \<open>What a \<open>for\<close> loop over a JSON value iterates.\<close>

fun py_iter :: "json \<Rightarrow> exn + json list" where
  "py_iter (JList xs) = Inr xs"
| "py_iter (JDict d) = Inr (map (\<lambda>kv. JStr (fst kv)) d)"
| "py_iter (JStr s) = Inr (map (\<lambda>c. JStr [c]) s)"
| "py_iter v =
     Inl (Exn TypeError
       ([CHR 0x27] @ type_name v @ [CHR 0x27] @ '' object is not iterable''))"

subsection \<open>Strings\<close>

text \<open>
  \<open>c.isspace()\<close> for a code point below 256: the ASCII white space, the separators
  U+001C to U+001F, the next-line character U+0085 and the no-break space U+00A0.
\<close>

definition isspace :: "char \<Rightarrow> bool" where
  "isspace c = (c \<in> set [CHR 0x09, CHR 0x0A, CHR 0x0B, CHR 0x0C, CHR 0x0D,
                          CHR 0x1C, CHR 0x1D, CHR 0x1E, CHR 0x1F, CHR 0x20,
                          CHR 0x85, CHR 0xA0])"

definition strip :: "string \<Rightarrow> string" where
  "strip s = rev (dropWhile isspace (rev (dropWhile isspace s)))"

text \<open>\<open>not s or not s.strip()\<close>\<close>

definition blank :: "string \<Rightarrow> bool" where
  "blank s = (s = [] \<or> strip s = [])"

definition digit_char :: "nat \<Rightarrow> char" where
  "digit_char d = ''0123456789'' ! d"

function str_nat :: "nat \<Rightarrow> string" where
  "str_nat n = (if n < 10 then [digit_char n] else str_nat (n div 10) @ [digit_char (n mod 10)])"
  by pat_completeness auto
termination
  by (relation "measure (\<lambda>n. n)") auto

declare str_nat.simps [simp del]

text \<open>\<open>str(i)\<close> for an int.\<close>

definition str_int :: "int \<Rightarrow> string" where
  "str_int i = (if i < 0 then CHR ''-'' # str_nat (nat (- i)) else str_nat (nat i))"

section \<open>tools.py: the Brave search function\<close>

record http_request =
  url :: string
  headers :: "(string \<times> string) list"
  params :: pydict
  timeout :: real

record http_response =
  status_code :: int
  response_text :: string
  body_json :: "exn + json"

text \<open>
  The HTTP client is a parameter: for a request it gives the response, or the exception
  that \<open>client.get\<close> raises.  \<open>body_json\<close> is what \<open>response.json()\<close> does.
\<close>

type_synonym http_client = "http_request \<Rightarrow> exn + http_response"

text \<open>
  Python floats: \<open>rnd\<close> rounds an exact result to the nearest float.  The literals
  \<open>0.05\<close> and \<open>0.1\<close> are rounded when read, \<open>1.0\<close> is a float as it is.
\<close>

definition position_score :: "(real \<Rightarrow> real) \<Rightarrow> nat \<Rightarrow> real" where
  "position_score rnd idx = max (rnd (1 - rnd (real idx * rnd (5 / 100)))) (rnd (1 / 10))"

text \<open>The loop \<open>for idx, result in enumerate(web_results)\<close>, from position \<open>idx\<close> on.\<close>

fun convert_results :: "(real \<Rightarrow> real) \<Rightarrow> nat \<Rightarrow> json list \<Rightarrow> exn + pydict list" where
  "convert_results rnd idx [] = Inr []"
| "convert_results rnd idx (result # rest) =
     (let score = position_score rnd idx in
      (case py_get result ''title'' (JStr '''') of Inl e \<Rightarrow> Inl e | Inr t \<Rightarrow>
      (case py_get result ''url'' (JStr '''') of Inl e \<Rightarrow> Inl e | Inr u \<Rightarrow>
      (case py_get result ''description'' (JStr '''') of Inl e \<Rightarrow> Inl e | Inr d \<Rightarrow>
      (case convert_results rnd (Suc idx) rest of Inl e \<Rightarrow> Inl e
       | Inr rs \<Rightarrow>
           Inr ([(''title'', t), (''url'', u), (''description'', d), (''score'', JFloat score)]
                # rs))))))"

text \<open>The body of the \<open>try\<close> block once the response is there.\<close>

definition handle_response :: "(real \<Rightarrow> real) \<Rightarrow> http_response \<Rightarrow> exn + pydict list" where
  "handle_response rnd response =
     (if status_code response = 429
        then Inl (Exn PlainException ''Rate limit exceeded. Check your Brave API quota.'')
      else if status_code response = 401
        then Inl (Exn PlainException ''Invalid Brave API key'')
      else if status_code response \<noteq> 200
        then Inl (Exn PlainException
               (''Brave API returned '' @ str_int (status_code response) @ '': '' @ response_text response))
      else
        (case body_json response of Inl e \<Rightarrow> Inl e | Inr data \<Rightarrow>
        (case py_get data ''web'' (JDict []) of Inl e \<Rightarrow> Inl e | Inr web \<Rightarrow>
        (case py_get web ''results'' (JList []) of Inl e \<Rightarrow> Inl e | Inr web_results \<Rightarrow>
        (case py_iter web_results of Inl e \<Rightarrow> Inl e | Inr items \<Rightarrow>
           convert_results rnd 0 items)))))"

definition build_params :: "string \<Rightarrow> int \<Rightarrow> int \<Rightarrow> string option \<Rightarrow> string option \<Rightarrow> pydict" where
  "build_params query count offset country lang =
     [(''q'', JStr query), (''count'', JInt count), (''offset'', JInt offset)]
     @ (case country of Some c \<Rightarrow> if c \<noteq> [] then [(''country'', JStr c)] else [] | None \<Rightarrow> [])
     @ (case lang of Some l \<Rightarrow> if l \<noteq> [] then [(''lang'', JStr l)] else [] | None \<Rightarrow> [])"

text \<open>
  \<open>search_web_tool\<close> returns the list of results or the exception it raises, together
  with the HTTP requests it sent, in order.  \<open>attempt\<close> is the \<open>try\<close> block; of the
  exceptions that leave it, a \<open>RequestError\<close> is wrapped and any other is raised again.
\<close>

definition search_web_tool ::
  "(real \<Rightarrow> real) \<Rightarrow> http_client \<Rightarrow> string \<Rightarrow> string \<Rightarrow> int \<Rightarrow> int \<Rightarrow> string option \<Rightarrow> string option
     \<Rightarrow> (exn + pydict list) \<times> http_request list" where
  "search_web_tool rnd client api_key query count offset country lang =
     (if blank api_key then (Inl (Exn ValueError ''Brave API key is required''), [])
      else if blank query then (Inl (Exn ValueError ''Query cannot be empty''), [])
      else
        let count = min (max count 1) 20;
            request = \<lparr> url = ''https://api.search.brave.com/res/v1/web/search'',
                        headers = [(''X-Subscription-Token'', api_key),
                                   (''Accept'', ''application/json'')],
                        params = build_params query count offset country lang,
                        timeout = 30 \<rparr>;
            attempt = (case client request of
                         Inl e \<Rightarrow> Inl e
                       | Inr response \<Rightarrow> handle_response rnd response)
        in case attempt of
             Inl e \<Rightarrow>
               (if exn_class e = RequestError
                  then (Inl (Exn PlainException (''Request failed: '' @ str_exn e)), [request])
                  else (Inl e, [request]))
           | Inr results \<Rightarrow> (Inr results, [request]))"

text \<open>The \<open>count\<close> parameter a request carries.\<close>

definition request_count :: "http_request \<Rightarrow> int option" where
  "request_count req = (case map_of (params req) ''count'' of Some (JInt c) \<Rightarrow> Some c | _ \<Rightarrow> None)"

section \<open>research_agent.py\<close>

record ResearchAgentDependencies =
  brave_api_key :: string
  gmail_credentials_path :: string
  gmail_token_path :: string
  session_id :: "string option"

text \<open>The signature of \<open>search_web_tool\<close>, once the arithmetic and the HTTP client are fixed.\<close>

type_synonym search_function =
  "string \<Rightarrow> string \<Rightarrow> int \<Rightarrow> int \<Rightarrow> string option \<Rightarrow> string option
     \<Rightarrow> (exn + pydict list) \<times> http_request list"

text \<open>
  The body of the tool \<open>search_web\<close>, with the search function it calls as a parameter:
  its result, or the exception that leaves it, and the requests sent.
\<close>

definition search_web_with ::
  "search_function \<Rightarrow> ResearchAgentDependencies \<Rightarrow> string \<Rightarrow> int
     \<Rightarrow> (exn + pydict list) \<times> http_request list" where
  "search_web_with tool deps query max_results =
     (let max_results = min (max max_results 1) 20;
          (r, sent) = tool (brave_api_key deps) query max_results 0 None None
      in case r of
           Inr results \<Rightarrow> (Inr results, sent)
         | Inl e \<Rightarrow> (Inr [[(''error'', JStr (''Search failed: '' @ str_exn e))]], sent))"

text \<open>The tool \<open>search_web\<close> as the module has it: the search function is \<open>search_web_tool\<close>.\<close>

definition search_web ::
  "(real \<Rightarrow> real) \<Rightarrow> http_client \<Rightarrow> ResearchAgentDependencies \<Rightarrow> string \<Rightarrow> int
     \<Rightarrow> (exn + pydict list) \<times> http_request list" where
  "search_web rnd client deps query max_results =
     search_web_with (search_web_tool rnd client) deps query max_results"

subsection \<open>Usage counters and the delegated run\<close>

text \<open>
  Modelled from the spec: the usage object \<open>ctx.usage\<close> is not part of the sources at
  hand.  UsageCounters are \<open>{request_units, response_units, total_units}\<close>.
\<close>

record UsageCounters =
  request_units :: int
  response_units :: int
  total_units :: int

text \<open>Modelled from the spec: \<open>merge(into, from)\<close> is purely additive.\<close>

definition merge :: "UsageCounters \<Rightarrow> UsageCounters \<Rightarrow> UsageCounters" where
  "merge into from =
     \<lparr> request_units = request_units into + request_units from,
       response_units = response_units into + response_units from,
       total_units = total_units into + total_units from \<rparr>"

text \<open>Modelled from the spec: the counters of a session that has not consumed anything.\<close>

definition no_usage :: UsageCounters where
  "no_usage = \<lparr> request_units = 0, response_units = 0, total_units = 0 \<rparr>"

text \<open>The dependencies that \<open>create_email_draft\<close> builds for the email agent.\<close>

record EmailAgentDependencies =
  gmail_credentials_path :: string
  gmail_token_path :: string
  session_id :: "string option"

text \<open>
  Modelled from the spec: the module \<open>email_agent\<close> and the run it starts are not part of
  the sources at hand.  A finished nested session is given by the usage of each model
  response it received, in order, and by how it ended: with its output, or failed with an
  exception.  An agent determines the session from the prompt and the dependencies.
\<close>

record nested_session =
  responses :: "UsageCounters list"
  outcome :: "exn + string"

type_synonym agent = "string \<Rightarrow> EmailAgentDependencies \<Rightarrow> nested_session"

text \<open>
  Modelled from the spec: the usage a session has accrued when it ends, counted on its own.
\<close>

definition final_usage :: "nested_session \<Rightarrow> UsageCounters" where
  "final_usage s = foldl merge no_usage (responses s)"

text \<open>
  Modelled from the spec: \<open>agent.run(prompt, deps=deps, usage=usage)\<close> gives how the run
  ends, and the usage object after it.  A run that is handed a usage object counts every
  response on that object as the response arrives, so what a failing run accrued before it
  failed stays counted.
\<close>

definition agent_run ::
  "agent \<Rightarrow> string \<Rightarrow> EmailAgentDependencies \<Rightarrow> UsageCounters \<Rightarrow> (exn + string) \<times> UsageCounters" where
  "agent_run ag prompt deps usage =
     (let s = ag prompt deps in (outcome s, foldl merge usage (responses s)))"

definition nl :: string where
  "nl = [CHR 0x0A]"

definition email_prompt :: "string \<Rightarrow> string \<Rightarrow> string \<Rightarrow> string option \<Rightarrow> string" where
  "email_prompt recipient_email subject context research_summary =
     (case research_summary of
        Some summary \<Rightarrow>
          if summary \<noteq> [] then
            nl @ ''Create a professional email to '' @ recipient_email @ '' with the subject ''
               @ [CHR 0x22] @ subject @ [CHR 0x22] @ ''.'' @ nl
            @ nl @ ''Context: '' @ context @ nl
            @ nl @ ''Research Summary:'' @ nl
            @ summary @ nl
            @ nl @ ''Please create a well-structured email that:'' @ nl
            @ ''1. Has an appropriate greeting'' @ nl
            @ ''2. Provides clear context'' @ nl
            @ ''3. Summarizes the key research findings professionally'' @ nl
            @ ''4. Includes actionable next steps if appropriate'' @ nl
            @ ''5. Ends with a professional closing'' @ nl
            @ nl @ ''The email should be informative but concise, and maintain a professional yet friendly tone.'' @ nl
          else
            nl @ ''Create a professional email to '' @ recipient_email @ '' with the subject ''
               @ [CHR 0x22] @ subject @ [CHR 0x22] @ ''.'' @ nl
            @ nl @ ''Context: '' @ context @ nl
            @ nl @ ''Please create a well-structured email that addresses the context provided.'' @ nl
      | None \<Rightarrow>
            nl @ ''Create a professional email to '' @ recipient_email @ '' with the subject ''
               @ [CHR 0x22] @ subject @ [CHR 0x22] @ ''.'' @ nl
            @ nl @ ''Context: '' @ context @ nl
            @ nl @ ''Please create a well-structured email that addresses the context provided.'' @ nl)"

text \<open>
  The tool \<open>create_email_draft\<close>.  \<open>usage\<close> is \<open>ctx.usage\<close> before the call; the result is
  the dictionary returned, or the exception that leaves the tool, and \<open>ctx.usage\<close> after
  the call.
\<close>

definition create_email_draft ::
  "agent \<Rightarrow> ResearchAgentDependencies \<Rightarrow> UsageCounters
     \<Rightarrow> string \<Rightarrow> string \<Rightarrow> string \<Rightarrow> string option
     \<Rightarrow> (exn + pydict) \<times> UsageCounters" where
  "create_email_draft email_agent deps usage recipient_email subject context research_summary =
     (let prompt = email_prompt recipient_email subject context research_summary;
          email_deps = \<lparr> EmailAgentDependencies.gmail_credentials_path =
                           ResearchAgentDependencies.gmail_credentials_path deps,
                         gmail_token_path = ResearchAgentDependencies.gmail_token_path deps,
                         session_id = ResearchAgentDependencies.session_id deps \<rparr>;
          (result, usage') = agent_run email_agent prompt email_deps usage
      in case result of
           Inr data \<Rightarrow>
             (Inr [(''success'', JBool True), (''agent_response'', JStr data),
                   (''recipient'', JStr recipient_email), (''subject'', JStr subject),
                   (''context'', JStr context)], usage')
         | Inl e \<Rightarrow>
             (Inr [(''success'', JBool False), (''error'', JStr (str_exn e)),
                   (''recipient'', JStr recipient_email), (''subject'', JStr subject)], usage'))"

section \<open>tool\_enabled\_agent/agent.py\<close>

record ToolDependencies =
  session :: "nat option"
  api_timeout :: int
  max_search_results :: int
  calculation_precision :: int
  session_id :: "string option"






text \<open>
  \<open>aiohttp.ClientSession\<close> objects are handles into a store that records which sessions
  are closed and every call of \<open>close()\<close>, in order.
\<close>

record session_store =
  next_handle :: nat
  closed :: "nat list"
  close_calls :: "nat list"

definition new_session :: "session_store \<Rightarrow> nat \<times> session_store" where
  "new_session st = (next_handle st, st\<lparr> next_handle := Suc (next_handle st) \<rparr>)"

definition is_closed :: "session_store \<Rightarrow> nat \<Rightarrow> bool" where
  "is_closed st h = (h \<in> set (closed st))"

definition close_session :: "session_store \<Rightarrow> nat \<Rightarrow> session_store" where
  "close_session st h = st\<lparr> closed := h # closed st, close_calls := close_calls st @ [h] \<rparr>"

text \<open>
  \<open>ask_agent\<close>: \<open>run\<close> is \<open>tool_agent.run\<close>, giving \<open>result.data\<close> or raising.  The result
  is what \<open>ask_agent\<close> returns or raises, and the store after the \<open>finally\<close> block.
\<close>

definition ask_agent ::
  "(string \<Rightarrow> ToolDependencies \<Rightarrow> exn + string) \<Rightarrow> string \<Rightarrow> ToolDependencies option
     \<Rightarrow> session_store \<Rightarrow> (exn + string) \<times> session_store" where
  "ask_agent run question dependencies st =
     (let (dependencies, st1) =
            (case dependencies of
               None \<Rightarrow>
                 (let (s, st') = new_session st
                  in (\<lparr> session = Some s, api_timeout = 10, max_search_results = 5,
                         calculation_precision = 6, session_id = None \<rparr>, st'))
             | Some d \<Rightarrow> (d, st));
          result = run question dependencies;
          st2 = (case session dependencies of
                   Some s \<Rightarrow> if \<not> is_closed st1 s then close_session st1 s else st1
                 | None \<Rightarrow> st1)
      in (result, st2))"

section \<open>basic\_chat\_agent/agent.py\<close>

record ConversationContext =
  user_name :: "string option"
  conversation_count :: int
  preferred_language :: string
  session_id :: "string option"

definition join :: "string \<Rightarrow> string list \<Rightarrow> string" where
  "join sep parts = (case parts of [] \<Rightarrow> [] | p # ps \<Rightarrow> p @ concat (map (\<lambda>q. sep @ q) ps))"

definition dynamic_context_prompt :: "ConversationContext \<Rightarrow> string" where
  "dynamic_context_prompt deps =
     (let prompt_parts =
            (case user_name deps of
               Some n \<Rightarrow> if n \<noteq> [] then [''The user'' @ [CHR 0x27] @ ''s name is '' @ n @ ''.''] else []
             | None \<Rightarrow> [])
            @ (if conversation_count deps > 0
                 then [''This is message #'' @ str_int (conversation_count deps + 1)
                        @ '' in your conversation.'']
                 else [])
            @ (if preferred_language deps \<noteq> ''English''
                 then [''The user prefers to communicate in '' @ preferred_language deps @ ''.'']
                 else [])
      in if prompt_parts \<noteq> [] then join '' '' prompt_parts else [])"

text \<open>
  The language model is a parameter: from the dynamic system prompt and the message it
  gives \<open>result.data\<close> or raises.  \<open>chat_agent\<close> registers no tool; the run reads \<open>deps\<close>
  through \<open>dynamic_context_prompt\<close> only.
\<close>

type_synonym llm = "string \<Rightarrow> string \<Rightarrow> exn + string"

definition chat_agent_run :: "llm \<Rightarrow> string \<Rightarrow> ConversationContext \<Rightarrow> exn + string" where
  "chat_agent_run model message deps = model (dynamic_context_prompt deps) message"

text \<open>
  \<open>chat_with_agent\<close> and \<open>chat_with_agent_sync\<close>: what the call returns or raises, and the
  context object after the call.
\<close>

definition chat_with_agent ::
  "llm \<Rightarrow> string \<Rightarrow> ConversationContext option \<Rightarrow> (exn + string) \<times> ConversationContext" where
  "chat_with_agent model message context =
     (let context = (case context of
                       None \<Rightarrow> \<lparr> user_name = None, conversation_count = 0,
                                  preferred_language = ''English'', session_id = None \<rparr>
                     | Some c \<Rightarrow> c);
          context = context\<lparr> conversation_count := conversation_count context + 1 \<rparr>;
          result = chat_agent_run model message context
      in (result, context))"

definition chat_with_agent_sync ::
  "llm \<Rightarrow> string \<Rightarrow> ConversationContext option \<Rightarrow> (exn + string) \<times> ConversationContext" where
  "chat_with_agent_sync model message context =
     (let context = (case context of
                       None \<Rightarrow> \<lparr> user_name = None, conversation_count = 0,
                                  preferred_language = ''English'', session_id = None \<rparr>
                     | Some c \<Rightarrow> c);
          context = context\<lparr> conversation_count := conversation_count context + 1 \<rparr>;
          result = chat_agent_run model message context
      in (result, context))"

section \<open>The tool dispatcher and the run-graph driver\<close>

text \<open>
  Modelled from the spec: the agent framework that registers tools, dispatches tool calls
  and drives a run through its nodes is not part of the sources at hand; the definitions
  of this section follow sections 3, 4.1 and 4.3 of the specification.
\<close>

datatype tool_call = ToolCall (call_id: nat) (call_name: string) (call_args: pydict)

datatype tool_error = UnknownToolError | ValidationError "string list" | ToolExecutionError string

datatype event =
    TextDelta string
  | FinalResult string
  | ToolCallRequested nat string pydict
  | ToolCallCompleted nat "tool_error + json"

datatype exec_mode = Blocking | NonBlocking

text \<open>
  Modelled from the spec: a ToolRegistration is \<open>{name, argument schema, handler, execution
  mode}\<close>.  The schema lists the required fields, each with the check its value has to
  pass; the handler returns a value or raises.
\<close>

record ToolRegistration =
  tool_name :: string
  schema :: "(string \<times> (json \<Rightarrow> bool)) list"
  handler :: "pydict \<Rightarrow> exn + json"
  mode :: exec_mode

datatype registry_error = DuplicateToolError

text \<open>
  Modelled from the spec: \<open>register\<close> fails with DuplicateToolError if the name is already
  registered in this registry.
\<close>

definition register ::
  "ToolRegistration \<Rightarrow> ToolRegistration list \<Rightarrow> registry_error + ToolRegistration list" where
  "register reg registry =
     (if tool_name reg \<in> set (map tool_name registry) then Inl DuplicateToolError
      else Inr (registry @ [reg]))"

text \<open>
  Modelled from the spec: the offending fields of \<open>args\<close> are the fields of the schema that
  are missing or whose value fails its check, every one of them, in schema order.
\<close>

definition offending_fields :: "(string \<times> (json \<Rightarrow> bool)) list \<Rightarrow> pydict \<Rightarrow> string list" where
  "offending_fields sch args =
     map fst (filter (\<lambda>fc. case map_of args (fst fc) of None \<Rightarrow> True | Some v \<Rightarrow> \<not> snd fc v) sch)"

text \<open>
  Modelled from the spec: \<open>dispatch(call_id, name, args)\<close> looks the name up; an absent
  name gives UnknownToolError without invoking anything; a schema mismatch gives
  ValidationError with the offending fields and the handler is not invoked; otherwise the
  handler is invoked once, and an exception it raises becomes ToolExecutionError.  The
  second component lists the call ids whose handler was invoked.
\<close>

definition dispatch :: "ToolRegistration list \<Rightarrow> nat \<Rightarrow> string \<Rightarrow> pydict \<Rightarrow> event \<times> nat list" where
  "dispatch registry cid name args =
     (case find (\<lambda>reg. tool_name reg = name) registry of
        None \<Rightarrow> (ToolCallCompleted cid (Inl UnknownToolError), [])
      | Some reg \<Rightarrow>
          (let bad = offending_fields (schema reg) args
           in if bad \<noteq> [] then (ToolCallCompleted cid (Inl (ValidationError bad)), [])
              else (case handler reg args of
                      Inl e \<Rightarrow> (ToolCallCompleted cid (Inl (ToolExecutionError (str_exn e))), [cid])
                    | Inr v \<Rightarrow> (ToolCallCompleted cid (Inr v), [cid]))))"

text \<open>
  Modelled from the spec: the event stream of a ToolCallNode announces each pending call
  and completes it, one call after the other.
\<close>

definition tool_stream :: "ToolRegistration list \<Rightarrow> tool_call list \<Rightarrow> event list" where
  "tool_stream registry calls =
     concat (map (\<lambda>c. [ToolCallRequested (call_id c) (call_name c) (call_args c),
                        fst (dispatch registry (call_id c) (call_name c) (call_args c))]) calls)"

datatype transport_error = RateLimited | Unauthorized | OtherUpstream string

text \<open>
  Modelled from the spec: a model stage ends with a final result, which carries the output
  text and the tool calls it requests, or with an unrecoverable transport failure.
\<close>

datatype model_result = ModelResult string "tool_call list" | TransportFailure transport_error

datatype node =
    UserPromptNode string
  | ModelRequestNode
  | ToolCallNode "tool_call list"
  | EndNode "transport_error + string"

datatype node_kind = UserPromptKind | ModelRequestKind | ToolCallKind | EndKind

fun kind :: "node \<Rightarrow> node_kind" where
  "kind (UserPromptNode p) = UserPromptKind"
| "kind ModelRequestNode = ModelRequestKind"
| "kind (ToolCallNode cs) = ToolCallKind"
| "kind (EndNode r) = EndKind"

datatype driver_state = AwaitingPrompt | Generating | Dispatching "tool_call list" | Done | Failed

datatype turn = UserTurn string | ModelTurn string "tool_call list" | ToolTurn "event list"

text \<open>
  Modelled from the spec: a RunSession owns its original prompt, its ordered turn history,
  its node sequence and its terminal result or failure; the driver keeps its state there.
\<close>

record RunSession =
  prompt :: string
  state :: driver_state
  history :: "turn list"
  nodes :: "node list"
  result :: "(transport_error + string) option"

text \<open>Modelled from the spec: the model backend consumes the ordered turn history.\<close>

type_synonym backend = "turn list \<Rightarrow> model_result"

text \<open>Modelled from the spec: \<open>start(prompt, deps)\<close> gives a session that awaits its prompt.\<close>

definition start :: "string \<Rightarrow> RunSession" where
  "start p = \<lparr> prompt = p, state = AwaitingPrompt, history = [], nodes = [], result = None \<rparr>"

text \<open>
  Modelled from the spec: \<open>advance\<close>.  From AwaitingPrompt the driver emits a UserPromptNode
  and goes to Generating, producing a ModelRequestNode.  When the model stage is complete,
  a result with tool calls leads to Dispatching with a ToolCallNode; a result without leads
  to Done with an EndNode carrying the output; a transport failure leads to Failed with an
  EndNode carrying the failure.  From Dispatching, once all calls are resolved, the results
  are appended to the history and the driver is back in Generating with a new
  ModelRequestNode.  Done and Failed are terminal.
\<close>

definition advance :: "backend \<Rightarrow> ToolRegistration list \<Rightarrow> RunSession \<Rightarrow> RunSession" where
  "advance model registry s =
     (case state s of
        AwaitingPrompt \<Rightarrow>
          s\<lparr> state := Generating,
             history := history s @ [UserTurn (prompt s)],
             nodes := nodes s @ [UserPromptNode (prompt s), ModelRequestNode] \<rparr>
      | Generating \<Rightarrow>
          (case model (history s) of
             TransportFailure f \<Rightarrow>
               s\<lparr> state := Failed, nodes := nodes s @ [EndNode (Inl f)], result := Some (Inl f) \<rparr>
           | ModelResult out calls \<Rightarrow>
               if calls \<noteq> [] then
                 s\<lparr> state := Dispatching calls,
                    history := history s @ [ModelTurn out calls],
                    nodes := nodes s @ [ToolCallNode calls] \<rparr>
               else
                 s\<lparr> state := Done,
                    history := history s @ [ModelTurn out calls],
                    nodes := nodes s @ [EndNode (Inr out)],
                    result := Some (Inr out) \<rparr>)
      | Dispatching calls \<Rightarrow>
          s\<lparr> state := Generating,
             history := history s @ [ToolTurn (tool_stream registry calls)],
             nodes := nodes s @ [ModelRequestNode] \<rparr>
      | Done \<Rightarrow> s
      | Failed \<Rightarrow> s)"

definition terminal :: "RunSession \<Rightarrow> bool" where
  "terminal s = (state s = Done \<or> state s = Failed)"

text \<open>
  Modelled from the spec: driving a session calls \<open>advance\<close> until a terminal state is
  reached.  A model that asks for tools for ever keeps the driver going, hence the bound on
  the number of steps; \<open>None\<close> says that the bound was too small.
\<close>

fun drive :: "nat \<Rightarrow> backend \<Rightarrow> ToolRegistration list \<Rightarrow> RunSession \<Rightarrow> RunSession option" where
  "drive 0 model registry s = (if terminal s then Some s else None)"
| "drive (Suc n) model registry s =
     (if terminal s then Some s else drive n model registry (advance model registry s))"

text \<open>The node sequence after the prompt: a model request, then per tool round a tool node and a model request.\<close>

definition rounds_nodes :: "string \<Rightarrow> tool_call list list \<Rightarrow> node list" where
  "rounds_nodes p rounds =
     UserPromptNode p # ModelRequestNode # concat (map (\<lambda>cs. [ToolCallNode cs, ModelRequestNode]) rounds)"

section \<open>Observations on results\<close>

text \<open>\<open>sub in s\<close> for strings.\<close>

fun contains :: "string \<Rightarrow> string \<Rightarrow> bool" where
  "contains sub [] = (sub = [])"
| "contains sub (c # cs) = (take (length sub) (c # cs) = sub \<or> contains sub cs)"

text \<open>The tool rounds a turn history holds, and whether a model result asks for tools.\<close>

fun is_tool_turn :: "turn \<Rightarrow> bool" where
  "is_tool_turn (ToolTurn events) = True"
| "is_tool_turn t = False"

definition tool_turns :: "turn list \<Rightarrow> nat" where
  "tool_turns h = length (filter is_tool_turn h)"

fun asks_for_tools :: "model_result \<Rightarrow> bool" where
  "asks_for_tools (ModelResult out calls) = (calls \<noteq> [])"
| "asks_for_tools (TransportFailure f) = False"

text \<open>The schema check "is a string".\<close>

fun is_string :: "json \<Rightarrow> bool" where
  "is_string (JStr s) = True"
| "is_string v = False"

text \<open>
  The invariant of the driver: what the node sequence of a session with prompt \<open>p\<close> looks
  like in each state.
\<close>

definition shape :: "string \<Rightarrow> RunSession \<Rightarrow> bool" where
  "shape p s =
     (prompt s = p \<and>
      (case state s of
         AwaitingPrompt \<Rightarrow> nodes s = [] \<and> result s = None
       | Generating \<Rightarrow> (\<exists>rounds. nodes s = rounds_nodes p rounds) \<and> result s = None
       | Dispatching cs \<Rightarrow>
           (\<exists>rounds. nodes s = rounds_nodes p rounds @ [ToolCallNode cs]) \<and> result s = None
       | Done \<Rightarrow>
           (\<exists>rounds out. nodes s = rounds_nodes p rounds @ [EndNode (Inr out)]
              \<and> result s = Some (Inr out))
       | Failed \<Rightarrow>
           (\<exists>rounds f. nodes s = rounds_nodes p rounds @ [EndNode (Inl f)]
              \<and> result s = Some (Inl f))))"

section \<open>Properties\<close>

subsection \<open>The search tool and its search function\<close>

lemma search_web_unfold:
  "search_web rnd client deps query max_results =
     (let max_results = min (max max_results 1) 20;
          (r, sent) = search_web_tool rnd client (brave_api_key deps) query max_results 0 None None
      in case r of
           Inr results \<Rightarrow> (Inr results, sent)
         | Inl e \<Rightarrow> (Inr [[(''error'', JStr (''Search failed: '' @ str_exn e))]], sent))"
  by (simp add: search_web_def search_web_with_def)

subsection \<open>The result count sent to the search API\<close>

lemma request_count_build [simp]:
  "request_count \<lparr> url = u, headers = h, params = build_params q c off co la, timeout = t \<rparr> = Some c"
  by (simp add: request_count_def build_params_def)

lemma sent_search_web_tool:
  "req \<in> set (snd (search_web_tool rnd client api_key query count offset country lang))
   \<Longrightarrow> request_count req = Some (min (max count 1) 20)"
  by (auto simp: search_web_tool_def Let_def split: if_splits sum.splits)

lemma sent_search_web:
  "snd (search_web rnd client deps query max_results) =
   snd (search_web_tool rnd client (brave_api_key deps) query (min (max max_results 1) 20) 0 None None)"
  by (simp add: search_web_unfold Let_def split: prod.splits sum.splits)

lemma search_web_with_sent:
  "snd (search_web_with tool deps query max_results)
     = snd (tool (brave_api_key deps) query (min (max max_results 1) 20) 0 None None)"
  by (simp add: search_web_with_def Let_def split: prod.splits sum.splits)

text \<open>
  C8.  Both layers clamp the count.  Every request that \<open>search_web_tool\<close> sends carries
  its \<open>count\<close> argument clamped into the interval from 1 to 20.  The body of \<open>search_web\<close>
  hands \<open>max_results\<close> clamped into the same interval to the search function it calls,
  whatever that function is: a function that returns its arguments shows the clamped
  count, and the requests sent are those of the call with the clamped count.  So every
  request that \<open>search_web\<close> sends through \<open>search_web_tool\<close> carries \<open>max_results\<close> clamped
  once.  An input below 1 becomes 1, an input above 20 becomes 20, an input in between is
  kept, and clamping a clamped value changes nothing.
\<close>

theorem search_count_clamped:
  "(\<forall>req \<in> set (snd (search_web_tool rnd client api_key query count offset country lang)).
       request_count req = Some (min (max count 1) 20))
   \<and> fst (search_web_with
          (\<lambda>api_key query count offset country lang.
            (Inr [[(''api_key'', JStr api_key), (''query'', JStr query),
                   (''count'', JInt count), (''offset'', JInt offset)]], []))
          deps query max_results)
       = Inr [[(''api_key'', JStr (brave_api_key deps)), (''query'', JStr query),
               (''count'', JInt (min (max max_results 1) 20)), (''offset'', JInt 0)]]
   \<and> snd (search_web_with tool deps query max_results)
       = snd (tool (brave_api_key deps) query (min (max max_results 1) 20) 0 None None)
   \<and> search_web rnd client deps query max_results
       = search_web_with (search_web_tool rnd client) deps query max_results
   \<and> (\<forall>req \<in> set (snd (search_web rnd client deps query max_results)).
       request_count req = Some (min (max max_results 1) 20))
   \<and> 1 \<le> min (max count 1) 20 \<and> min (max count 1) 20 \<le> 20
   \<and> min (max count 1) 20 = (if count < 1 then 1 else if 20 < count then 20 else count)
   \<and> min (max (min (max count 1) 20) 1) 20 = min (max count 1) 20"
proof -
  have a: "\<forall>req \<in> set (snd (search_web_tool rnd client api_key query count offset country lang)).
       request_count req = Some (min (max count 1) 20)"
    using sent_search_web_tool by blast
  have "min (max (min (max max_results 1) 20) 1) 20 = min (max max_results 1) 20"
    by simp
  then have b: "\<forall>req \<in> set (snd (search_web rnd client deps query max_results)).
       request_count req = Some (min (max max_results 1) 20)"
    using sent_search_web_tool [of _ rnd client "brave_api_key deps" query "min (max max_results 1) 20" 0 None None]
    by (simp add: sent_search_web)
  have c: "fst (search_web_with
          (\<lambda>api_key query count offset country lang.
            (Inr [[(''api_key'', JStr api_key), (''query'', JStr query),
                   (''count'', JInt count), (''offset'', JInt offset)]], []))
          deps query max_results)
       = Inr [[(''api_key'', JStr (brave_api_key deps)), (''query'', JStr query),
               (''count'', JInt (min (max max_results 1) 20)), (''offset'', JInt 0)]]"
    by (simp add: search_web_with_def)
  have d: "search_web rnd client deps query max_results
       = search_web_with (search_web_tool rnd client) deps query max_results"
    by (simp add: search_web_def)
  show ?thesis using a b c d search_web_with_sent [of tool deps query max_results] by simp
qed

theorem search_count_clamped_witness:
  "map request_count
     (snd (search_web_tool (\<lambda>x. x) (\<lambda>r. Inl (Exn RequestError ''down'')) ''key'' ''cats'' (-3) 0 None None))
     = [Some 1]
   \<and> fst (search_web_with
          (\<lambda>api_key query count offset country lang.
            (Inr [[(''api_key'', JStr api_key), (''query'', JStr query),
                   (''count'', JInt count), (''offset'', JInt offset)]], []))
         
        \<lparr>brave_api_key = ''key'', gmail_credentials_path = ''c.json'', gmail_token_path = ''t.json'',
         session_id = None\<rparr> ''cats'' 50)
     = Inr [[(''api_key'', JStr ''key''), (''query'', JStr ''cats''), (''count'', JInt 20),
             (''offset'', JInt 0)]]
   \<and> map request_count
     (snd (search_web (\<lambda>x. x) (\<lambda>r. Inl (Exn RequestError ''down''))
        \<lparr>brave_api_key = ''key'', gmail_credentials_path = ''c.json'', gmail_token_path = ''t.json'',
         session_id = None\<rparr> ''cats'' 50))
     = [Some 20]"
  using search_count_clamped [where rnd = "\<lambda>x. x" and client = "\<lambda>r. Inl (Exn RequestError ''down'')"
      and api_key = "''key''" and query = "''cats''" and count = "-3" and offset = 0
      and country = None and lang = None
      and deps = "\<lparr>brave_api_key = ''key'', gmail_credentials_path = ''c.json'', gmail_token_path = ''t.json'',
         session_id = None\<rparr>" and max_results = 50]
  by (simp add: search_web_unfold search_web_tool_def blank_def strip_def isspace_def)

subsection \<open>Relevance scores\<close>

lemma convert_results_scores:
  "convert_results rnd k items = Inr rs \<Longrightarrow>
     length rs = length items \<and>
     (\<forall>i < length rs. map_of (rs ! i) ''score'' = Some (JFloat (position_score rnd (k + i))))"
proof (induction items arbitrary: k rs)
  case Nil
  then show ?case by simp
next
  case (Cons result rest)
  from Cons.prems obtain t u d rs' where
    rest: "convert_results rnd (Suc k) rest = Inr rs'" and
    rs: "rs = [(''title'', t), (''url'', u), (''description'', d),
               (''score'', JFloat (position_score rnd k))] # rs'"
    by (auto simp: Let_def split: sum.splits)
  from Cons.IH [OF rest] have len: "length rs' = length rest"
    and sc: "\<And>i. i < length rs' \<Longrightarrow>
          map_of (rs' ! i) ''score'' = Some (JFloat (position_score rnd (Suc k + i)))"
    by auto
  show ?case
  proof (intro conjI allI impI)
    show "length rs = length (result # rest)" using rs len by simp
  next
    fix i assume "i < length rs"
    then show "map_of (rs ! i) ''score'' = Some (JFloat (position_score rnd (k + i)))"
      using rs sc by (cases i) auto
  qed
qed

lemma search_web_tool_success:
  "fst (search_web_tool rnd client api_key query count offset country lang) = Inr results
   \<Longrightarrow> \<exists>items. convert_results rnd 0 items = Inr results"
  by (auto simp: search_web_tool_def handle_response_def Let_def split: if_splits sum.splits)

lemma position_score_bounds:
  assumes "mono rnd" "rnd 0 = 0" "rnd 1 = 1"
  shows "rnd (1 / 10) \<le> position_score rnd idx" "position_score rnd idx \<le> 1"
    "0 \<le> position_score rnd idx"
proof -
  have c: "0 \<le> rnd (5 / 100)" using monoD [OF assms(1), of 0 "5 / 100"] assms(2) by simp
  have d0: "0 \<le> rnd (1 / 10)" using monoD [OF assms(1), of 0 "1 / 10"] assms(2) by simp
  have d1: "rnd (1 / 10) \<le> 1" using monoD [OF assms(1), of "1 / 10" 1] assms(3) by simp
  have "0 \<le> real idx * rnd (5 / 100)" using c by simp
  then have "0 \<le> rnd (real idx * rnd (5 / 100))"
    using monoD [OF assms(1), of 0 "real idx * rnd (5 / 100)"] assms(2) by simp
  then have "rnd (1 - rnd (real idx * rnd (5 / 100))) \<le> 1"
    using monoD [OF assms(1), of "1 - rnd (real idx * rnd (5 / 100))" 1] assms(3) by simp
  then show "position_score rnd idx \<le> 1" using d1 by (simp add: position_score_def)
  show "rnd (1 / 10) \<le> position_score rnd idx" by (simp add: position_score_def)
  then show "0 \<le> position_score rnd idx" using d0 by linarith
qed

lemma position_score_antimono:
  assumes "mono rnd" "rnd 0 = 0" "idx \<le> j"
  shows "position_score rnd j \<le> position_score rnd idx"
proof -
  have c: "0 \<le> rnd (5 / 100)" using monoD [OF assms(1), of 0 "5 / 100"] assms(2) by simp
  have "real idx * rnd (5 / 100) \<le> real j * rnd (5 / 100)"
    using assms(3) c by (simp add: mult_right_mono)
  then have "rnd (real idx * rnd (5 / 100)) \<le> rnd (real j * rnd (5 / 100))"
    by (rule monoD [OF assms(1)])
  then have "1 - rnd (real j * rnd (5 / 100)) \<le> 1 - rnd (real idx * rnd (5 / 100))"
    by simp
  then have "rnd (1 - rnd (real j * rnd (5 / 100))) \<le> rnd (1 - rnd (real idx * rnd (5 / 100)))"
    by (rule monoD [OF assms(1)])
  then show ?thesis by (auto simp: position_score_def max_def)
qed

text \<open>
  C9.  When \<open>search_web_tool\<close> returns results, the result at zero-based position \<open>idx\<close>
  has the score \<open>max(1.0 - idx * 0.05, 0.1)\<close>, computed in floating point
  (\<open>position_score rnd idx\<close>; with exact arithmetic it is that very number).  For any
  rounding that is monotone and leaves 0 and 1 as they are, each score lies between the
  float 0.1 and 1.0, hence within the bound \<open>0.0 \<le> score \<le> 1.0\<close> of BraveSearchResult,
  and a later position never has a higher score.
\<close>

theorem search_scores:
  assumes "fst (search_web_tool rnd client api_key query count offset country lang) = Inr results"
  shows "(\<forall>idx < length results.
            map_of (results ! idx) ''score'' = Some (JFloat (position_score rnd idx)))
         \<and> position_score (\<lambda>x. x) idx = max (1 - real idx * (5 / 100)) (1 / 10)
         \<and> (mono rnd \<and> rnd 0 = 0 \<and> rnd 1 = 1 \<longrightarrow>
              rnd (1 / 10) \<le> position_score rnd idx \<and> position_score rnd idx \<le> 1
              \<and> 0 \<le> position_score rnd idx
              \<and> (\<forall>j. idx \<le> j \<longrightarrow> position_score rnd j \<le> position_score rnd idx))"
proof -
  from search_web_tool_success [OF assms] obtain items
    where "convert_results rnd 0 items = Inr results" by blast
  from convert_results_scores [OF this]
  have a: "\<forall>idx < length results.
            map_of (results ! idx) ''score'' = Some (JFloat (position_score rnd idx))"
    by simp
  have b: "position_score (\<lambda>x. x) idx = max (1 - real idx * (5 / 100)) (1 / 10)"
    by (simp add: position_score_def)
  show ?thesis
    using a b position_score_bounds [of rnd idx] position_score_antimono [of rnd idx]
    by blast
qed

theorem search_scores_witness:
  "fst (search_web_tool (\<lambda>x. x)
         (\<lambda>r. Inr \<lparr> status_code = 200, response_text = ''ok'',
            body_json = Inr (JDict [(''web'', JDict [(''results'',
              JList [JDict [(''title'', JStr ''A'')], JDict []])])]) \<rparr>)
         ''key'' ''cats'' 10 0 None None)
     = Inr [[(''title'', JStr ''A''), (''url'', JStr []), (''description'', JStr []),
             (''score'', JFloat 1)],
            [(''title'', JStr []), (''url'', JStr []), (''description'', JStr []),
             (''score'', JFloat (position_score (\<lambda>x. x) 1))]]
   \<and> position_score (\<lambda>x. x) 1 = 19 / 20
   \<and> mono (\<lambda>x::real. x)
   \<and> position_score (\<lambda>x. x) 30 \<le> position_score (\<lambda>x. x) 1
   \<and> position_score (\<lambda>x. x) 30 = 1 / 10"
  using search_scores [of "\<lambda>x. x"
      "\<lambda>r. Inr \<lparr> status_code = 200, response_text = ''ok'',
            body_json = Inr (JDict [(''web'', JDict [(''results'',
              JList [JDict [(''title'', JStr ''A'')], JDict []])])]) \<rparr>"
      "''key''" "''cats''" 10 0 None None
      "[[(''title'', JStr ''A''), (''url'', JStr []), (''description'', JStr []),
             (''score'', JFloat 1)],
            [(''title'', JStr []), (''url'', JStr []), (''description'', JStr []),
             (''score'', JFloat (position_score (\<lambda>x. x) 1))]]" 1]
  by (simp add: search_web_tool_def handle_response_def blank_def strip_def isspace_def
        build_params_def dict_get_def position_score_def mono_def)

subsection \<open>Backend errors\<close>

lemma search_web_tool_response:
  "\<not> blank api_key \<Longrightarrow> \<not> blank query \<Longrightarrow>
   fst (search_web_tool rnd (\<lambda>req. Inr r) api_key query count offset country lang)
     = (case handle_response rnd r of
          Inl e \<Rightarrow>
            if exn_class e = RequestError
              then Inl (Exn PlainException (''Request failed: '' @ str_exn e)) else Inl e
        | Inr results \<Rightarrow> Inr results)"
  by (simp add: search_web_tool_def Let_def split: sum.splits)

text \<open>
  C6.  Backend errors come in three kinds that can be told apart.  With a usable API key
  and query, \<open>search_web_tool\<close> raises the rate-limit error for a response with status 429,
  the authentication error for status 401, and the generic upstream error, which quotes
  the status and the body, for every other status than 200; the three errors are pairwise
  different, whatever the status and the body of the third response are.
\<close>

theorem backend_error_kinds:
  assumes "\<not> blank api_key" and "\<not> blank query"
    and "status_code r1 = 429" and "status_code r2 = 401"
    and "status_code r3 \<notin> {200, 401, 429}"
  shows "fst (search_web_tool rnd (\<lambda>req. Inr r1) api_key query count offset country lang)
           = Inl (Exn PlainException ''Rate limit exceeded. Check your Brave API quota.'')
       \<and> fst (search_web_tool rnd (\<lambda>req. Inr r2) api_key query count offset country lang)
           = Inl (Exn PlainException ''Invalid Brave API key'')
       \<and> fst (search_web_tool rnd (\<lambda>req. Inr r3) api_key query count offset country lang)
           = Inl (Exn PlainException
               (''Brave API returned '' @ str_int (status_code r3) @ '': '' @ response_text r3))
       \<and> fst (search_web_tool rnd (\<lambda>req. Inr r1) api_key query count offset country lang)
           \<noteq> fst (search_web_tool rnd (\<lambda>req. Inr r2) api_key query count offset country lang)
       \<and> fst (search_web_tool rnd (\<lambda>req. Inr r1) api_key query count offset country lang)
           \<noteq> fst (search_web_tool rnd (\<lambda>req. Inr r3) api_key query count offset country lang)
       \<and> fst (search_web_tool rnd (\<lambda>req. Inr r2) api_key query count offset country lang)
           \<noteq> fst (search_web_tool rnd (\<lambda>req. Inr r3) api_key query count offset country lang)"
  using assms by (simp add: search_web_tool_response handle_response_def)

theorem backend_error_kinds_witness:
  "fst (search_web_tool (\<lambda>x. x)
          (\<lambda>req. Inr \<lparr> status_code = 429, response_text = ''slow down'', body_json = Inr JNull \<rparr>)
          ''key'' ''cats'' 10 0 None None)
     = Inl (Exn PlainException ''Rate limit exceeded. Check your Brave API quota.'')
   \<and> fst (search_web_tool (\<lambda>x. x)
          (\<lambda>req. Inr \<lparr> status_code = 401, response_text = ''who are you'', body_json = Inr JNull \<rparr>)
          ''key'' ''cats'' 10 0 None None)
     = Inl (Exn PlainException ''Invalid Brave API key'')
   \<and> fst (search_web_tool (\<lambda>x. x)
          (\<lambda>req. Inr \<lparr> status_code = 503, response_text = ''down'', body_json = Inr JNull \<rparr>)
          ''key'' ''cats'' 10 0 None None)
     = Inl (Exn PlainException ''Brave API returned 503: down'')"
  using backend_error_kinds [of "''key''" "''cats''"
      "\<lparr> status_code = 429, response_text = ''slow down'', body_json = Inr JNull \<rparr>"
      "\<lparr> status_code = 401, response_text = ''who are you'', body_json = Inr JNull \<rparr>"
      "\<lparr> status_code = 503, response_text = ''down'', body_json = Inr JNull \<rparr>"
      "\<lambda>x. x" 10 0 None None]
  by (simp add: blank_def strip_def isspace_def str_int_def str_nat.simps digit_char_def)

subsection \<open>Usage\<close>

lemma merge_assoc: "merge (merge a b) c = merge a (merge b c)"
  by (simp add: merge_def)

lemma merge_no_usage [simp]: "merge a no_usage = a"
  by (simp add: merge_def no_usage_def)

lemma foldl_merge: "foldl merge u xs = merge u (foldl merge no_usage xs)"
proof (induction xs rule: rev_induct)
  case Nil
  then show ?case by simp
next
  case (snoc x xs)
  then show ?case by (simp add: merge_assoc)
qed

lemma agent_run_usage:
  "snd (agent_run ag p deps usage) = merge usage (final_usage (ag p deps))"
  by (simp add: agent_run_def final_usage_def Let_def foldl_merge [of usage])

lemma create_email_draft_usage:
  "snd (create_email_draft email_agent deps usage recipient_email subject context research_summary)
   = snd (agent_run email_agent (email_prompt recipient_email subject context research_summary)
        \<lparr> EmailAgentDependencies.gmail_credentials_path =
             ResearchAgentDependencies.gmail_credentials_path deps,
           gmail_token_path = ResearchAgentDependencies.gmail_token_path deps,
           session_id = ResearchAgentDependencies.session_id deps \<rparr> usage)"
  by (simp add: create_email_draft_def Let_def split: prod.splits sum.splits)

text \<open>
  C1.  After \<open>create_email_draft\<close> has delegated to the email agent, the usage counters of
  the parent are its counters before the call plus the final usage of the nested run:
  nothing is counted twice and nothing is lost.  Merging a nested usage of 3 request and
  5 response units into a parent usage of 10 and 2 gives exactly 13 and 7, also when the
  nested run accrues them over several responses.
\<close>

theorem delegation_usage_additive:
  "snd (create_email_draft email_agent deps usage recipient_email subject context research_summary)
     = merge usage
         (final_usage
            (email_agent (email_prompt recipient_email subject context research_summary)
               \<lparr> EmailAgentDependencies.gmail_credentials_path =
                    ResearchAgentDependencies.gmail_credentials_path deps,
                  gmail_token_path = ResearchAgentDependencies.gmail_token_path deps,
                  session_id = ResearchAgentDependencies.session_id deps \<rparr>))
   \<and> merge \<lparr> request_units = 10, response_units = 2, total_units = 12 \<rparr>
            \<lparr> request_units = 3, response_units = 5, total_units = 8 \<rparr>
       = \<lparr> request_units = 13, response_units = 7, total_units = 20 \<rparr>
   \<and> snd (create_email_draft
             (\<lambda>p email_deps.
                 \<lparr> responses = [\<lparr> request_units = 1, response_units = 4, total_units = 5 \<rparr>,
                                 \<lparr> request_units = 2, response_units = 1, total_units = 3 \<rparr>],
                   outcome = Inr ''Draft created'' \<rparr>)
             deps \<lparr> request_units = 10, response_units = 2, total_units = 12 \<rparr>
             recipient_email subject context research_summary)
       = \<lparr> request_units = 13, response_units = 7, total_units = 20 \<rparr>"
  by (simp add: create_email_draft_usage agent_run_usage) (simp add: merge_def final_usage_def no_usage_def)

subsection \<open>Failing delegation\<close>

text \<open>
  C3.  When the nested email-agent run fails, \<open>create_email_draft\<close> does not raise: it
  returns the dictionary with \<open>success\<close> false, the text of the error, the recipient and
  the subject, and the usage that the nested run accrued before it failed is merged into
  the usage of the parent.
\<close>

theorem delegation_failure_payload:
  assumes "outcome (email_agent (email_prompt recipient_email subject context research_summary)
               \<lparr> EmailAgentDependencies.gmail_credentials_path =
                    ResearchAgentDependencies.gmail_credentials_path deps,
                  gmail_token_path = ResearchAgentDependencies.gmail_token_path deps,
                  session_id = ResearchAgentDependencies.session_id deps \<rparr>) = Inl e"
  shows "create_email_draft email_agent deps usage recipient_email subject context research_summary
     = (Inr [(''success'', JBool False), (''error'', JStr (str_exn e)),
             (''recipient'', JStr recipient_email), (''subject'', JStr subject)],
        merge usage
         (final_usage
            (email_agent (email_prompt recipient_email subject context research_summary)
               \<lparr> EmailAgentDependencies.gmail_credentials_path =
                    ResearchAgentDependencies.gmail_credentials_path deps,
                  gmail_token_path = ResearchAgentDependencies.gmail_token_path deps,
                  session_id = ResearchAgentDependencies.session_id deps \<rparr>)))"
proof -
  have "snd (create_email_draft email_agent deps usage recipient_email subject context research_summary)
     = merge usage
         (final_usage
            (email_agent (email_prompt recipient_email subject context research_summary)
               \<lparr> EmailAgentDependencies.gmail_credentials_path =
                    ResearchAgentDependencies.gmail_credentials_path deps,
                  gmail_token_path = ResearchAgentDependencies.gmail_token_path deps,
                  session_id = ResearchAgentDependencies.session_id deps \<rparr>))"
    by (simp add: create_email_draft_usage agent_run_usage)
  moreover have "fst (create_email_draft email_agent deps usage recipient_email subject context research_summary)
     = Inr [(''success'', JBool False), (''error'', JStr (str_exn e)),
             (''recipient'', JStr recipient_email), (''subject'', JStr subject)]"
    using assms by (simp add: create_email_draft_def agent_run_def Let_def)
  ultimately show ?thesis by (simp add: prod_eq_iff)
qed

theorem delegation_failure_payload_witness:
  "create_email_draft
     (\<lambda>p email_deps.
        \<lparr> responses = [\<lparr> request_units = 3, response_units = 5, total_units = 8 \<rparr>],
          outcome = Inl (Exn RuntimeError ''Gmail token expired'') \<rparr>)
     \<lparr> brave_api_key = ''key'', gmail_credentials_path = ''c.json'', gmail_token_path = ''t.json'',
       session_id = None \<rparr>
     \<lparr> request_units = 10, response_units = 2, total_units = 12 \<rparr>
     ''ann@example.com'' ''Findings'' ''weekly report'' None
   = (Inr [(''success'', JBool False), (''error'', JStr ''Gmail token expired''),
           (''recipient'', JStr ''ann@example.com''), (''subject'', JStr ''Findings'')],
      \<lparr> request_units = 13, response_units = 7, total_units = 20 \<rparr>)"
  using delegation_failure_payload [of
     "\<lambda>p email_deps.
        \<lparr> responses = [\<lparr> request_units = 3, response_units = 5, total_units = 8 \<rparr>],
          outcome = Inl (Exn RuntimeError ''Gmail token expired'') \<rparr>"
     "''ann@example.com''" "''Findings''" "''weekly report''" None
     "\<lparr> brave_api_key = ''key'', gmail_credentials_path = ''c.json'', gmail_token_path = ''t.json'',
       session_id = None \<rparr>"
     "Exn RuntimeError ''Gmail token expired''"
     "\<lparr> request_units = 10, response_units = 2, total_units = 12 \<rparr>"]
  by (simp add: final_usage_def merge_def no_usage_def)

subsection \<open>The HTTP session of ask_agent\<close>

text \<open>
  C7.  \<open>ask_agent\<close> called with dependencies of the caller that hold an open session
  (handle 0, created by the caller) closes that session in its \<open>finally\<close> block, whether
  the run returns or raises, although the call did not create it.
\<close>

theorem ask_agent_closes_supplied_session:
  "snd (ask_agent run question
          (Some \<lparr> session = Some 0, api_timeout = 10, max_search_results = 5,
                  calculation_precision = 6, session_id = None \<rparr>)
          \<lparr> next_handle = 1, closed = [], close_calls = [] \<rparr>)
     = \<lparr> next_handle = 1, closed = [0], close_calls = [0] \<rparr>"
  by (simp add: ask_agent_def is_closed_def close_session_def Let_def)

lemma ask_agent_own_session:
  "next_handle st \<notin> set (closed st) \<Longrightarrow>
   snd (ask_agent run question None st)
     = st\<lparr> next_handle := Suc (next_handle st), closed := next_handle st # closed st,
           close_calls := close_calls st @ [next_handle st] \<rparr>"
  by (simp add: ask_agent_def new_session_def is_closed_def close_session_def Let_def)

subsection \<open>Conversation count\<close>

text \<open>
  C10.  A call of \<open>chat_with_agent\<close> or of \<open>chat_with_agent_sync\<close> with a context of the
  caller leaves that context with \<open>conversation_count\<close> increased by exactly one and with
  \<open>user_name\<close>, \<open>preferred_language\<close> and \<open>session_id\<close> unchanged, whether the run
  returns or raises.
\<close>

theorem chat_increments_count:
  "snd (chat_with_agent model message (Some c))
      = c\<lparr> conversation_count := conversation_count c + 1 \<rparr>
   \<and> snd (chat_with_agent_sync model message (Some c))
      = c\<lparr> conversation_count := conversation_count c + 1 \<rparr>
   \<and> conversation_count (snd (chat_with_agent model message (Some c))) = conversation_count c + 1
   \<and> user_name (snd (chat_with_agent model message (Some c))) = user_name c
   \<and> preferred_language (snd (chat_with_agent model message (Some c))) = preferred_language c
   \<and> ConversationContext.session_id (snd (chat_with_agent model message (Some c)))
        = ConversationContext.session_id c
   \<and> conversation_count (snd (chat_with_agent_sync model message (Some c))) = conversation_count c + 1
   \<and> user_name (snd (chat_with_agent_sync model message (Some c))) = user_name c
   \<and> preferred_language (snd (chat_with_agent_sync model message (Some c))) = preferred_language c
   \<and> ConversationContext.session_id (snd (chat_with_agent_sync model message (Some c)))
        = ConversationContext.session_id c"
  by (simp add: chat_with_agent_def chat_with_agent_sync_def Let_def)

subsection \<open>The node sequence of a session\<close>

lemma rounds_nodes_snoc:
  "rounds_nodes p (rounds @ [cs]) = rounds_nodes p rounds @ [ToolCallNode cs, ModelRequestNode]"
  by (simp add: rounds_nodes_def)

lemma shape_start: "shape p (start p)"
  by (simp add: shape_def start_def)

lemma shape_advance:
  assumes "shape p s"
  shows "shape p (advance model registry s)"
proof (cases "state s")
  case AwaitingPrompt
  with assms have "nodes s = []" "prompt s = p" by (simp_all add: shape_def)
  then have "nodes (advance model registry s) = rounds_nodes p []"
    using AwaitingPrompt by (simp add: advance_def rounds_nodes_def)
  then show ?thesis
    using AwaitingPrompt assms by (auto simp: shape_def advance_def)
next
  case Generating
  with assms obtain rounds where n: "nodes s = rounds_nodes p rounds"
    and r: "result s = None" and p: "prompt s = p"
    by (auto simp: shape_def)
  show ?thesis
  proof (cases "model (history s)")
    case (TransportFailure f)
    then show ?thesis using Generating n p by (auto simp: shape_def advance_def)
  next
    case (ModelResult out calls)
    then show ?thesis using Generating n r p by (auto simp: shape_def advance_def)
  qed
next
  case (Dispatching cs)
  with assms obtain rounds where n: "nodes s = rounds_nodes p rounds @ [ToolCallNode cs]"
    and r: "result s = None" and p: "prompt s = p"
    by (auto simp: shape_def)
  have "nodes (advance model registry s) = rounds_nodes p (rounds @ [cs])"
    using Dispatching n by (simp add: advance_def rounds_nodes_snoc)
  then show ?thesis
    using Dispatching r p by (auto simp: shape_def advance_def)
next
  case Done
  then show ?thesis using assms by (simp add: advance_def)
next
  case Failed
  then show ?thesis using assms by (simp add: advance_def)
qed

lemma drive_shape:
  "drive n model registry s = Some s' \<Longrightarrow> shape p s \<Longrightarrow> shape p s' \<and> terminal s'"
proof (induction n arbitrary: s)
  case 0
  then show ?case by (auto split: if_splits)
next
  case (Suc n)
  show ?case
  proof (cases "terminal s")
    case True
    with Suc.prems show ?thesis by simp
  next
    case False
    with Suc.prems have "drive n model registry (advance model registry s) = Some s'" by simp
    then show ?thesis using Suc.IH shape_advance [OF Suc.prems(2)] by blast
  qed
qed

lemma drive_enough_fuel:
  "terminal ((advance model registry ^^ n) s) \<Longrightarrow> \<exists>s'. drive n model registry s = Some s'"
proof (induction n arbitrary: s)
  case 0
  then show ?case by simp
next
  case (Suc n)
  show ?case
  proof (cases "terminal s")
    case True
    then show ?thesis by simp
  next
    case False
    from Suc.prems have "terminal ((advance model registry ^^ n) (advance model registry s))"
      by (simp add: funpow_swap1)
    from Suc.IH [OF this] show ?thesis using False by simp
  qed
qed

lemma shape_terminal:
  assumes "shape p s" and "terminal s"
  shows "\<exists>rounds r. nodes s = rounds_nodes p rounds @ [EndNode r] \<and> result s = Some r"
proof (cases "state s")
  case Done
  with assms obtain rounds out
    where "nodes s = rounds_nodes p rounds @ [EndNode (Inr out)]" "result s = Some (Inr out)"
    by (auto simp: shape_def)
  then show ?thesis by blast
next
  case Failed
  with assms obtain rounds f
    where "nodes s = rounds_nodes p rounds @ [EndNode (Inl f)]" "result s = Some (Inl f)"
    by (auto simp: shape_def)
  then show ?thesis by blast
qed (use assms in \<open>simp_all add: terminal_def\<close>)

lemma kinds_rounds:
  "UserPromptKind \<notin> kind ` set (concat (map (\<lambda>cs. [ToolCallNode cs, ModelRequestNode]) rounds))
   \<and> EndKind \<notin> kind ` set (concat (map (\<lambda>cs. [ToolCallNode cs, ModelRequestNode]) rounds))"
  by (induction rounds) auto

lemma distinct_adj_rounds:
  "distinct_adj (map kind (ModelRequestNode #
      concat (map (\<lambda>cs. [ToolCallNode cs, ModelRequestNode]) rounds) @ [EndNode r]))"
  by (induction rounds) auto

lemma drive_terminal: "terminal s \<Longrightarrow> drive n model registry s = Some s"
  by (cases n) simp_all

lemma drive_more_fuel:
  "drive n model registry s = Some s' \<Longrightarrow> drive (n + m) model registry s = Some s'"
proof (induction n arbitrary: s)
  case 0
  then show ?case by (simp add: drive_terminal split: if_splits)
next
  case (Suc n)
  then show ?case by (cases "terminal s") simp_all
qed

lemma tool_turns_snoc [simp]:
  "tool_turns (h @ [t]) = tool_turns h + (if is_tool_turn t then 1 else 0)"
  by (simp add: tool_turns_def)

lemma drive_generating:
  assumes stop: "\<forall>h. k \<le> tool_turns h \<longrightarrow> \<not> asks_for_tools (model h)"
  shows "state s = Generating \<Longrightarrow> tool_turns (history s) + j = k
           \<Longrightarrow> \<exists>s'. drive (2 * j + 1) model registry s = Some s'"
proof (induction j arbitrary: s)
  case 0
  then have "\<not> asks_for_tools (model (history s))" using stop by simp
  then have "terminal (advance model registry s)"
    using "0.prems"(1)
    by (cases "model (history s)") (simp_all add: advance_def terminal_def)
  then show ?case using "0.prems"(1) by (simp add: terminal_def)
next
  case (Suc j)
  have nt: "\<not> terminal s" using Suc.prems(1) by (simp add: terminal_def)
  show ?case
  proof (cases "asks_for_tools (model (history s))")
    case False
    then have "terminal (advance model registry s)"
      using Suc.prems(1)
      by (cases "model (history s)") (simp_all add: advance_def terminal_def)
    then show ?thesis using nt by (simp add: drive_terminal)
  next
    case True
    then obtain out calls where m: "model (history s) = ModelResult out calls" "calls \<noteq> []"
      by (cases "model (history s)") auto
    let ?s1 = "advance model registry s"
    let ?s2 = "advance model registry ?s1"
    have s1: "state ?s1 = Dispatching calls" "history ?s1 = history s @ [ModelTurn out calls]"
      using Suc.prems(1) m by (simp_all add: advance_def)
    have s2: "state ?s2 = Generating"
      "history ?s2 = history s @ [ModelTurn out calls, ToolTurn (tool_stream registry calls)]"
      using s1 by (simp_all add: advance_def)
    have "tool_turns (history ?s2) + j = k"
      using s2(2) Suc.prems(2) by (simp add: tool_turns_def)
    from Suc.IH [OF s2(1) this] obtain s' where "drive (2 * j + 1) model registry ?s2 = Some s'"
      by blast
    moreover have "\<not> terminal ?s1" using s1(1) by (simp add: terminal_def)
    ultimately show ?thesis using nt by simp
  qed
qed

lemma drive_from_start:
  assumes "\<forall>h. k \<le> tool_turns h \<longrightarrow> \<not> asks_for_tools (model h)"
  shows "\<exists>s. drive (2 * k + 2) model registry (start p) = Some s"
proof -
  let ?s1 = "advance model registry (start p)"
  have "state ?s1 = Generating" "tool_turns (history ?s1) + k = k"
    by (simp_all add: advance_def start_def tool_turns_def)
  from drive_generating [OF assms this] obtain s where "drive (2 * k + 1) model registry ?s1 = Some s"
    by blast
  moreover have "\<not> terminal (start p)" by (simp add: terminal_def start_def)
  ultimately show ?thesis by simp
qed


text \<open>
  C5.  A session in which the model stops asking for tools after at most \<open>k\<close> tool rounds
  is driven to a terminal state within \<open>2 * k + 2\<close> steps, and more steps change nothing.
  Its node sequence then starts with the one user-prompt node and ends with the one end
  node, which carries the result of the session; no user-prompt or end node lies in
  between, and no two neighbouring nodes are of the same kind.  The same holds of every
  session that reaches a terminal state, however many steps it took.  A transport failure
  while generating moves the driver to Failed and emits the end node with the failure, so a
  failing session has its terminal node too.
\<close>

theorem node_sequence_well_formed:
  "((\<forall>h. k \<le> tool_turns h \<longrightarrow> \<not> asks_for_tools (model h)) \<longrightarrow>
      (\<exists>s mid r. (\<forall>fuel \<ge> 2 * k + 2. drive fuel model registry (start p) = Some s)
          \<and> nodes s = UserPromptNode p # mid @ [EndNode r]
          \<and> UserPromptKind \<notin> kind ` set mid \<and> EndKind \<notin> kind ` set mid
          \<and> result s = Some r
          \<and> distinct_adj (map kind (nodes s))))
   \<and> (drive fuel model registry (start p) = Some s \<longrightarrow>
      (\<exists>mid r. nodes s = UserPromptNode p # mid @ [EndNode r]
          \<and> UserPromptKind \<notin> kind ` set mid \<and> EndKind \<notin> kind ` set mid
          \<and> result s = Some r)
      \<and> distinct_adj (map kind (nodes s)))
   \<and> (terminal ((advance model registry ^^ fuel) (start p)) \<longrightarrow>
        (\<exists>s'. drive fuel model registry (start p) = Some s'))
   \<and> (state s0 = Generating \<and> model (history s0) = TransportFailure f \<longrightarrow>
        state (advance model registry s0) = Failed
        \<and> nodes (advance model registry s0) = nodes s0 @ [EndNode (Inl f)]
        \<and> result (advance model registry s0) = Some (Inl f))"
proof -
  have wf: "(\<exists>mid r. nodes t = UserPromptNode p # mid @ [EndNode r]
          \<and> UserPromptKind \<notin> kind ` set mid \<and> EndKind \<notin> kind ` set mid
          \<and> result t = Some r)
      \<and> distinct_adj (map kind (nodes t))"
    if d: "drive n model registry (start p) = Some t" for n t
  proof -
    from drive_shape [OF d shape_start] have "shape p t" "terminal t" by simp_all
    from shape_terminal [OF this] obtain rounds r
      where n: "nodes t = rounds_nodes p rounds @ [EndNode r]" and r: "result t = Some r"
      by blast
    let ?mid = "ModelRequestNode # concat (map (\<lambda>cs. [ToolCallNode cs, ModelRequestNode]) rounds)"
    have "nodes t = UserPromptNode p # ?mid @ [EndNode r]"
      using n by (simp add: rounds_nodes_def)
    moreover have "UserPromptKind \<notin> kind ` set ?mid" "EndKind \<notin> kind ` set ?mid"
      using kinds_rounds [of rounds] by auto
    ultimately have "\<exists>mid r. nodes t = UserPromptNode p # mid @ [EndNode r]
          \<and> UserPromptKind \<notin> kind ` set mid \<and> EndKind \<notin> kind ` set mid
          \<and> result t = Some r"
      using r by blast
    moreover have "distinct_adj (map kind (nodes t))"
      using n distinct_adj_rounds [of rounds r] by (simp add: rounds_nodes_def)
    ultimately show ?thesis by blast
  qed
  have live: "\<exists>s mid r. (\<forall>fuel \<ge> 2 * k + 2. drive fuel model registry (start p) = Some s)
          \<and> nodes s = UserPromptNode p # mid @ [EndNode r]
          \<and> UserPromptKind \<notin> kind ` set mid \<and> EndKind \<notin> kind ` set mid
          \<and> result s = Some r
          \<and> distinct_adj (map kind (nodes s))"
    if stop: "\<forall>h. k \<le> tool_turns h \<longrightarrow> \<not> asks_for_tools (model h)"
  proof -
    from drive_from_start [OF stop] obtain t
      where t: "drive (2 * k + 2) model registry (start p) = Some t" by blast
    have "drive fuel model registry (start p) = Some t" if "2 * k + 2 \<le> fuel" for fuel
    proof -
      from that have "fuel = (2 * k + 2) + (fuel - (2 * k + 2))" by arith
      then show ?thesis using drive_more_fuel [OF t, of "fuel - (2 * k + 2)"] by metis
    qed
    then show ?thesis using wf [OF t] by blast
  qed
  have fail: "state (advance model registry s0) = Failed
        \<and> nodes (advance model registry s0) = nodes s0 @ [EndNode (Inl f)]
        \<and> result (advance model registry s0) = Some (Inl f)"
    if "state s0 = Generating \<and> model (history s0) = TransportFailure f"
    using that by (simp add: advance_def)
  show ?thesis
    using live wf [of fuel s] drive_enough_fuel [where model = model and registry = registry and n = fuel and s = "start p"] fail
    by blast
qed

theorem node_sequence_well_formed_witness:
  "drive (Suc (Suc (Suc (Suc 0))))
      (\<lambda>h. if tool_turns h = 0
            then ModelResult [] [ToolCall 0 ''search_web'' [(''query'', JStr ''cats'')]]
            else ModelResult ''done'' [])
      [] (start ''hi'')
     = Some \<lparr> prompt = ''hi'', state = Done,
              history = [UserTurn ''hi'',
                         ModelTurn [] [ToolCall 0 ''search_web'' [(''query'', JStr ''cats'')]],
                         ToolTurn [ToolCallRequested 0 ''search_web'' [(''query'', JStr ''cats'')],
                                   ToolCallCompleted 0 (Inl UnknownToolError)],
                         ModelTurn ''done'' []],
              nodes = [UserPromptNode ''hi'', ModelRequestNode,
                       ToolCallNode [ToolCall 0 ''search_web'' [(''query'', JStr ''cats'')]],
                       ModelRequestNode, EndNode (Inr ''done'')],
              result = Some (Inr ''done'') \<rparr>
   \<and> drive (Suc (Suc 0)) (\<lambda>h. TransportFailure RateLimited) [] (start ''hi'')
     = Some \<lparr> prompt = ''hi'', state = Failed, history = [UserTurn ''hi''],
              nodes = [UserPromptNode ''hi'', ModelRequestNode, EndNode (Inl RateLimited)],
              result = Some (Inl RateLimited) \<rparr>
   \<and> distinct_adj (map kind [UserPromptNode ''hi'', ModelRequestNode, EndNode (Inl RateLimited)])
   \<and> terminal ((advance (\<lambda>h. TransportFailure RateLimited) [] ^^ Suc (Suc 0)) (start ''hi''))
   \<and> state (advance (\<lambda>h. TransportFailure RateLimited) [] (start ''hi'')) = Generating"
  using node_sequence_well_formed [where k = "Suc 0"
      and model = "\<lambda>h. if tool_turns h = 0
            then ModelResult [] [ToolCall 0 ''search_web'' [(''query'', JStr ''cats'')]]
            else ModelResult ''done'' []"
      and registry = "[]" and p = "''hi''"]
    node_sequence_well_formed [where k = 0 and fuel = "Suc (Suc 0)"
      and model = "\<lambda>h. TransportFailure RateLimited" and registry = "[]" and p = "''hi''"
      and s = "\<lparr> prompt = ''hi'', state = Failed, history = [UserTurn ''hi''],
              nodes = [UserPromptNode ''hi'', ModelRequestNode, EndNode (Inl RateLimited)],
              result = Some (Inl RateLimited) \<rparr>"
      and ?s0.0 = "advance (\<lambda>h. TransportFailure RateLimited) [] (start ''hi'')"
      and f = RateLimited]
  by (simp add: start_def advance_def terminal_def tool_stream_def dispatch_def tool_turns_def)

subsection \<open>Exceptions in tool handlers\<close>





subsection \<open>Malformed arguments\<close>

lemma offending_fields_iff:
  "f \<in> set (offending_fields sch args) \<longleftrightarrow>
     (\<exists>chk. (f, chk) \<in> set sch \<and> (case map_of args f of None \<Rightarrow> True | Some v \<Rightarrow> \<not> chk v))"
proof
  assume "f \<in> set (offending_fields sch args)"
  then obtain fc where "fc \<in> set sch" "fst fc = f"
    "case map_of args (fst fc) of None \<Rightarrow> True | Some v \<Rightarrow> \<not> snd fc v"
    by (auto simp: offending_fields_def)
  then have "(f, snd fc) \<in> set sch \<and> (case map_of args f of None \<Rightarrow> True | Some v \<Rightarrow> \<not> snd fc v)"
    by (cases fc) auto
  then show "\<exists>chk. (f, chk) \<in> set sch \<and> (case map_of args f of None \<Rightarrow> True | Some v \<Rightarrow> \<not> chk v)"
    by blast
next
  assume "\<exists>chk. (f, chk) \<in> set sch \<and> (case map_of args f of None \<Rightarrow> True | Some v \<Rightarrow> \<not> chk v)"
  then obtain chk where "(f, chk) \<in> set sch"
    "case map_of args f of None \<Rightarrow> True | Some v \<Rightarrow> \<not> chk v"
    by blast
  then have "(f, chk) \<in> set (filter (\<lambda>fc. case map_of args (fst fc) of None \<Rightarrow> True | Some v \<Rightarrow> \<not> snd fc v) sch)"
    by (simp split: option.splits)
  then have "fst (f, chk) \<in> set (offending_fields sch args)"
    unfolding offending_fields_def set_map by (rule imageI)
  then show "f \<in> set (offending_fields sch args)" by simp
qed


lemma blank_query_sends_nothing:
  "blank query \<Longrightarrow>
     snd (search_web_tool rnd client api_key query count offset country lang) = []
     \<and> (\<exists>e. fst (search_web_tool rnd client api_key query count offset country lang) = Inl e)"
  by (simp add: search_web_tool_def)

text \<open>
  C4.  In the dispatcher, arguments with an offending field (a required field missing or
  failing its check) give a ValidationError that lists every offending field, and the
  handler is not invoked; a web-search tool that requires \<open>query\<close> and is called without it
  gets the ValidationError that lists \<open>query\<close>.  Called with a blank query (empty, or white
  space only), \<open>search_web_tool\<close> raises before it sends any HTTP request, and \<open>search_web\<close>
  returns an error result and has sent nothing.  The API key is a setting of the
  dependencies, not an argument of the call: with a usable key the error is the one that
  names the query.
\<close>

theorem malformed_arguments_rejected:
  "(find (\<lambda>reg. tool_name reg = name) registry = Some reg
       \<and> offending_fields (schema reg) args \<noteq> []
      \<longrightarrow> dispatch registry cid name args
            = (ToolCallCompleted cid (Inl (ValidationError (offending_fields (schema reg) args))), []))
   \<and> (f \<in> set (offending_fields sch args) \<longleftrightarrow>
        (\<exists>chk. (f, chk) \<in> set sch \<and> (case map_of args f of None \<Rightarrow> True | Some v \<Rightarrow> \<not> chk v)))
   \<and> (map_of args ''query'' = None
      \<longrightarrow> dispatch [\<lparr> tool_name = ''search_web'', schema = [(''query'', is_string)],
                       handler = h, mode = m \<rparr>] cid ''search_web'' args
            = (ToolCallCompleted cid (Inl (ValidationError [''query''])), []))
   \<and> (blank query
      \<longrightarrow> snd (search_web_tool rnd client api_key query count offset country lang) = []
          \<and> (\<exists>e. fst (search_web_tool rnd client api_key query count offset country lang) = Inl e)
          \<and> snd (search_web rnd client deps query max_results) = []
          \<and> (\<exists>msg. fst (search_web rnd client deps query max_results)
                      = Inr [[(''error'', JStr msg)]]))
   \<and> (\<not> blank api_key \<and> blank query
      \<longrightarrow> search_web_tool rnd client api_key query count offset country lang
            = (Inl (Exn ValueError ''Query cannot be empty''), []))
   \<and> (\<not> blank (brave_api_key deps) \<and> blank query
      \<longrightarrow> search_web rnd client deps query max_results
            = (Inr [[(''error'', JStr ''Search failed: Query cannot be empty'')]], []))
   \<and> contains ''Query'' ''Search failed: Query cannot be empty''"
proof (intro conjI impI)
  assume "find (\<lambda>reg. tool_name reg = name) registry = Some reg
       \<and> offending_fields (schema reg) args \<noteq> []"
  then show "dispatch registry cid name args
            = (ToolCallCompleted cid (Inl (ValidationError (offending_fields (schema reg) args))), [])"
    by (simp add: dispatch_def Let_def)
next
  show "f \<in> set (offending_fields sch args) \<longleftrightarrow>
        (\<exists>chk. (f, chk) \<in> set sch \<and> (case map_of args f of None \<Rightarrow> True | Some v \<Rightarrow> \<not> chk v))"
    by (rule offending_fields_iff)
next
  assume "map_of args ''query'' = None"
  then show "dispatch [\<lparr> tool_name = ''search_web'', schema = [(''query'', is_string)],
                       handler = h, mode = m \<rparr>] cid ''search_web'' args
            = (ToolCallCompleted cid (Inl (ValidationError [''query''])), [])"
    by (simp add: dispatch_def offending_fields_def Let_def)
next
  assume b: "blank query"
  show "snd (search_web_tool rnd client api_key query count offset country lang) = []"
    "\<exists>e. fst (search_web_tool rnd client api_key query count offset country lang) = Inl e"
    using blank_query_sends_nothing [OF b] by simp_all
  from blank_query_sends_nothing [OF b, of rnd client "brave_api_key deps" "min (max max_results 1) 20" 0 None None]
  obtain e where
    "snd (search_web_tool rnd client (brave_api_key deps) query (min (max max_results 1) 20) 0 None None) = []"
    "fst (search_web_tool rnd client (brave_api_key deps) query (min (max max_results 1) 20) 0 None None) = Inl e"
    by blast
  then have "search_web rnd client deps query max_results
     = (Inr [[(''error'', JStr (''Search failed: '' @ str_exn e))]], [])"
    by (cases "search_web_tool rnd client (brave_api_key deps) query (min (max max_results 1) 20) 0 None None")
       (simp add: search_web_unfold Let_def)
  then show "snd (search_web rnd client deps query max_results) = []"
    "\<exists>msg. fst (search_web rnd client deps query max_results) = Inr [[(''error'', JStr msg)]]"
    by simp_all
next
  assume "\<not> blank api_key \<and> blank query"
  then show "search_web_tool rnd client api_key query count offset country lang
            = (Inl (Exn ValueError ''Query cannot be empty''), [])"
    by (simp add: search_web_tool_def)
next
  assume "\<not> blank (brave_api_key deps) \<and> blank query"
  then show "search_web rnd client deps query max_results
            = (Inr [[(''error'', JStr ''Search failed: Query cannot be empty'')]], [])"
    by (simp add: search_web_unfold search_web_tool_def)
next
  show "contains ''Query'' ''Search failed: Query cannot be empty''" by simp
qed

theorem malformed_arguments_rejected_witness:
  "dispatch [\<lparr> tool_name = ''search_web'', schema = [(''query'', is_string)],
               handler = (\<lambda>a. Inr JNull), mode = Blocking \<rparr>] 1 ''search_web'' []
     = (ToolCallCompleted 1 (Inl (ValidationError [''query''])), [])
   \<and> dispatch [\<lparr> tool_name = ''search_web'', schema = [(''query'', is_string)],
               handler = (\<lambda>a. Inr JNull), mode = Blocking \<rparr>] 2 ''search_web''
        [(''query'', JInt 7)]
     = (ToolCallCompleted 2 (Inl (ValidationError [''query''])), [])
   \<and> search_web_tool (\<lambda>x. x) (\<lambda>req. Inl (Exn RequestError ''unreachable''))
        ''key'' ''  '' 10 0 None None
     = (Inl (Exn ValueError ''Query cannot be empty''), [])
   \<and> search_web (\<lambda>x. x) (\<lambda>req. Inl (Exn RequestError ''unreachable''))
        \<lparr> brave_api_key = ''key'', gmail_credentials_path = ''c.json'',
          gmail_token_path = ''t.json'', session_id = None \<rparr> [] 10
     = (Inr [[(''error'', JStr ''Search failed: Query cannot be empty'')]], [])
   \<and> search_web (\<lambda>x. x) (\<lambda>req. Inl (Exn RequestError ''unreachable''))
        \<lparr> brave_api_key = ''key'', gmail_credentials_path = ''c.json'',
          gmail_token_path = ''t.json'', session_id = None \<rparr> [CHR 0xA0, CHR 0x09] 10
     = (Inr [[(''error'', JStr ''Search failed: Query cannot be empty'')]], [])"
  using malformed_arguments_rejected [where name = "''search_web''"
      and registry = "[\<lparr> tool_name = ''search_web'', schema = [(''query'', is_string)],
               handler = (\<lambda>a. Inr JNull), mode = Blocking \<rparr>]"
      and reg = "\<lparr> tool_name = ''search_web'', schema = [(''query'', is_string)],
               handler = (\<lambda>a. Inr JNull), mode = Blocking \<rparr>"
      and args = "[(''query'', JInt 7)]" and cid = 2
      and api_key = "''key''" and query = "''  ''" and rnd = "\<lambda>x. x"
      and client = "\<lambda>req. Inl (Exn RequestError ''unreachable'')"
      and count = 10 and offset = 0 and country = None and lang = None]
    malformed_arguments_rejected [where args = "[]" and cid = 1
      and h = "\<lambda>a. Inr JNull" and m = Blocking
      and query = "[]" and rnd = "\<lambda>x. x"
      and client = "\<lambda>req. Inl (Exn RequestError ''unreachable'')"
      and deps = "\<lparr> brave_api_key = ''key'', gmail_credentials_path = ''c.json'',
          gmail_token_path = ''t.json'', session_id = None \<rparr>" and max_results = 10]
    malformed_arguments_rejected [where query = "[CHR 0xA0, CHR 0x09]" and rnd = "\<lambda>x. x"
      and client = "\<lambda>req. Inl (Exn RequestError ''unreachable'')"
      and deps = "\<lparr> brave_api_key = ''key'', gmail_credentials_path = ''c.json'',
          gmail_token_path = ''t.json'', session_id = None \<rparr>" and max_results = 10]
  by (simp add: blank_def strip_def isspace_def offending_fields_def)

end
